theory Spec2Isabelle
  imports Main "HOL-Library.Word"
begin

unbundle bit_operations_syntax

section \<open>Data model\<close>

text \<open>
  The driver of \<^verbatim>\<open>BD600Spindle.cpp\<close>: fixed-width unsigned fields are words of that
  width, the C \<^verbatim>\<open>int\<close> cursor \<^verbatim>\<open>reg\<close> is a 32-bit word read as two's complement
  by \<open>sint\<close>, and every expression that C evaluates in \<^verbatim>\<open>int\<close> after integer
  promotion is evaluated on \<open>int\<close> where it cannot leave the 32-bit range.
\<close>

type_synonym u8 = "8 word"
type_synonym u16 = "16 word"
type_synonym u32 = "32 word"

text \<open>\<^verbatim>\<open>SpindleSpeed\<close> is an unsigned 32-bit speed in the generic spindle code.\<close>

type_synonym SpindleSpeed = u32

text \<open>
  Modelled from the spec: the declaration of \<^verbatim>\<open>ModbusCommand\<close> is in a header that is
  not part of the sources at hand. The spec describes the frame as a transmit length, an
  expected response length and the payload bytes, byte 0 being the device address that
  the Transport fills in. The byte buffer is a list; a store \<^verbatim>\<open>data.msg[i] = v\<close> is
  \<open>xs[i := v]\<close>, and the theorems about frames assume a buffer of at least six bytes,
  which is what the stores at indices 1 to 5 need.
\<close>

record ModbusCommand =
  tx_length :: nat
  rx_length :: nat
  msg :: "u8 list"

text \<open>
  What the logging macros are given. The range line of step -2 prints four derived
  integers; the acceleration and deceleration lines print the raw value divided by ten
  as a float, so the entry keeps the raw value.
\<close>

datatype log_msg =
    WarnFreqOutside u32 u16 u16
  | InfoFreqRange int int int int
  | InfoRatedRpm u16
  | InfoPoles u16
  | ErrorPoles u8
  | InfoAccel u16
  | InfoDecel u16

text \<open>
  Modelled from the spec: the speed table of the generic spindle (\<^verbatim>\<open>_speeds\<close>,
  \<^verbatim>\<open>shelfSpeeds\<close>, \<^verbatim>\<open>setupSpeeds\<close>) is a collaborator whose code is not part of the
  sources at hand. The spec says that calibration publishes the RPM bounds to it when
  they "have not yet been published", which the source tests as \<^verbatim>\<open>_speeds.size() == 0\<close>,
  and that it refreshes the table keyed by the current maximum frequency. So the table
  records every publication of bounds, oldest first, and the key it was last set up
  for; it is empty exactly when nothing has been published.
\<close>

record SpeedTable =
  published :: "(SpindleSpeed \<times> SpindleSpeed) list"
  table_key :: "u32 option"

definition speeds_size :: "SpeedTable \<Rightarrow> nat" where
  "speeds_size t = length (published t)"

definition shelfSpeeds :: "SpindleSpeed \<Rightarrow> SpindleSpeed \<Rightarrow> SpeedTable \<Rightarrow> SpeedTable" where
  "shelfSpeeds minRPM maxRPM t = t\<lparr>published := published t @ [(minRPM, maxRPM)]\<rparr>"

definition setupSpeeds :: "u32 \<Rightarrow> SpeedTable \<Rightarrow> SpeedTable" where
  "setupSpeeds max_dev_speed t = t\<lparr>table_key := Some max_dev_speed\<rparr>"

text \<open>
  The object state. \<^verbatim>\<open>reg\<close>, \<^verbatim>\<open>_minFrequency\<close>, \<^verbatim>\<open>_maxFrequency\<close>, \<^verbatim>\<open>_numberPoles\<close> and
  \<^verbatim>\<open>_NumberPhases\<close> are declared in \<^verbatim>\<open>BD600Spindle.h\<close>. \<^verbatim>\<open>_maxRpmAt50Hz\<close>, \<^verbatim>\<open>_slop\<close> and
  \<^verbatim>\<open>_speeds\<close> are used by the source but declared elsewhere: \<open>maxRpmAt50Hz\<close> holds the
  16-bit value the parser assigns, \<open>slop\<close> the value of the \<^verbatim>\<open>int\<close> expression assigned
  to it (between 1 and 1638, so any integer type keeps it). \<open>logged\<close> is the sequence of
  log lines emitted so far.
\<close>

record BD600Spindle =
  reg :: u32
  minFrequency :: u16
  maxFrequency :: u16
  numberPoles :: u16
  NumberPhases :: u16
  maxRpmAt50Hz :: u16
  slop :: int
  speeds :: SpeedTable
  logged :: "log_msg list"

text \<open>
  A freshly constructed driver: the header's default member initialisers. \<^verbatim>\<open>reg\<close> has
  no initialiser and the constructor does not assign it, so its first value is a
  parameter, as are the two members of the base class.
\<close>

definition new_spindle :: "u32 \<Rightarrow> u16 \<Rightarrow> int \<Rightarrow> BD600Spindle" where
  "new_spindle r rpm50 sl =
     \<lparr>reg = r, minFrequency = 100, maxFrequency = 400, numberPoles = 4, NumberPhases = 3,
      maxRpmAt50Hz = rpm50, slop = sl,
      speeds = \<lparr>published = [], table_key = None\<rparr>, logged = []\<rparr>"

text \<open>
  A response parser gets the response bytes and the driver; it returns whether it
  accepts the response, and the driver as it leaves it. The source reads the response
  through a bare pointer: a read past the end of the response is not defined there and
  is \<open>None\<close> here.
\<close>

type_synonym response_parser = "u8 list \<Rightarrow> BD600Spindle \<Rightarrow> (bool \<times> BD600Spindle) option"

section \<open>Calibration\<close>

definition updateRPM :: "BD600Spindle \<Rightarrow> BD600Spindle" where
  "updateRPM s =
     (let s1 = (if minFrequency s > maxFrequency s
                then s\<lparr>minFrequency := maxFrequency s\<rparr> else s);
          s2 = (if speeds_size (speeds s1) = 0
                then (let minRPM = word_of_int (uint (minFrequency s1) * 60 div 100);
                          maxRPM = word_of_int (uint (maxFrequency s1) * 60 div 100)
                      in s1\<lparr>speeds := shelfSpeeds minRPM maxRPM (speeds s1)\<rparr>)
                else s1);
          s3 = s2\<lparr>speeds := setupSpeeds (ucast (maxFrequency s2)) (speeds s2)\<rparr>
      in s3\<lparr>slop := max (uint (maxFrequency s3) div 40) 1\<rparr>)"

section \<open>Command encoding\<close>

text \<open>
  \<^verbatim>\<open>set_speed_command\<close>: the quotient and the products are unsigned 32-bit. Division by
  a zero \<^verbatim>\<open>_maxFrequency\<close> is not defined in the source and is \<open>None\<close> here.
\<close>

definition set_speed_command ::
  "u32 \<Rightarrow> BD600Spindle \<Rightarrow> ModbusCommand \<Rightarrow> (BD600Spindle \<times> ModbusCommand) option" where
  "set_speed_command dev_speed s data =
     (let s' = (if dev_speed \<noteq> 0 \<and>
                   (dev_speed < ucast (minFrequency s) \<or> dev_speed > ucast (maxFrequency s))
                then s\<lparr>logged := logged s @
                        [WarnFreqOutside dev_speed (minFrequency s) (maxFrequency s)]\<rparr>
                else s)
      in if maxFrequency s = 0 then None
         else (let speed_percentage = (dev_speed div ucast (maxFrequency s)) * 100 * 100 :: u32
               in Some (s', data\<lparr>tx_length := 6, rx_length := 6,
                          msg := (msg data)[1 := 0x06, 2 := 0x30, 3 := 0x00,
                                            4 := ucast (drop_bit 8 speed_percentage),
                                            5 := ucast (speed_percentage AND 0xFF)]\<rparr>)))"

text \<open>The 16-bit value a frame carries in bytes 4 (high) and 5 (low).\<close>

definition frame_value :: "ModbusCommand \<Rightarrow> nat" where
  "frame_value data = 256 * unat (msg data ! 4) + unat (msg data ! 5)"

text \<open>The five bytes after the address byte.\<close>

definition payload :: "ModbusCommand \<Rightarrow> u8 list" where
  "payload data = take 5 (drop 1 (msg data))"

section \<open>Discovery\<close>

text \<open>
  \<^verbatim>\<open>(response[4] << 8) | response[5]\<close>: both bytes are promoted to \<^verbatim>\<open>int\<close>, and the
  result is cut to 16 bits by the assignment to \<^verbatim>\<open>uint16_t\<close>.
\<close>

definition response_value :: "u8 list \<Rightarrow> u16" where
  "response_value response =
     ucast (push_bit 8 (ucast (response ! 4) :: u32) OR ucast (response ! 5))"

definition parse_max_frequency :: response_parser where
  "parse_max_frequency response s =
     (if length response < 6 then None
      else Some (True, s\<lparr>maxFrequency := response_value response\<rparr>))"

definition parse_min_frequency :: response_parser where
  "parse_min_frequency response s =
     (if length response < 6 then None
      else (let s1 = s\<lparr>minFrequency := response_value response\<rparr>;
                lo = uint (minFrequency s1) div 100;
                hi = uint (maxFrequency s1) div 100
            in Some (True, s1\<lparr>logged := logged s1 @ [InfoFreqRange lo hi (lo * 60) (hi * 60)]\<rparr>)))"

definition parse_rated_rpm :: response_parser where
  "parse_rated_rpm response s =
     (if length response < 6 then None
      else (let s1 = s\<lparr>maxRpmAt50Hz := response_value response\<rparr>;
                s2 = s1\<lparr>logged := logged s1 @ [InfoRatedRpm (maxRpmAt50Hz s1)]\<rparr>
            in Some (True, updateRPM s2)))"

definition parse_poles :: response_parser where
  "parse_poles response s =
     (if length response < 5 then None
      else (let v = response ! 4
            in if v \<le> 4 \<and> v \<ge> 2
               then (let s1 = s\<lparr>numberPoles := ucast v\<rparr>;
                         s2 = s1\<lparr>logged := logged s1 @ [InfoPoles (numberPoles s1)]\<rparr>
                     in Some (True, updateRPM s2))
               else Some (False, s\<lparr>logged := logged s @ [ErrorPoles v]\<rparr>)))"

definition parse_accel :: response_parser where
  "parse_accel response s =
     (if length response < 6 then None
      else Some (True, s\<lparr>logged := logged s @ [InfoAccel (response_value response)]\<rparr>))"

definition parse_decel :: response_parser where
  "parse_decel response s =
     (if length response < 6 then None
      else Some (True, s\<lparr>logged := logged s @ [InfoDecel (response_value response)]\<rparr>))"

text \<open>
  \<^verbatim>\<open>initialization_sequence\<close> writes the common part of a read request into the buffer
  before it looks at the index, then the register byte and the parser of the step. The
  result is the buffer as it leaves it and the parser, \<open>None\<close> for \<^verbatim>\<open>nullptr\<close>.
\<close>

definition initialization_sequence ::
  "int \<Rightarrow> ModbusCommand \<Rightarrow> ModbusCommand \<times> response_parser option" where
  "initialization_sequence index data =
     (let d = data\<lparr>tx_length := 6, rx_length := 6,
                   msg := (msg data)[1 := 0x01, 2 := 0x03, 4 := 0x00, 5 := 0x00]\<rparr>
      in if index = - 1 then (d\<lparr>msg := (msg d)[3 := 5]\<rparr>, Some parse_max_frequency)
         else if index = - 2 then (d\<lparr>msg := (msg d)[3 := 11]\<rparr>, Some parse_min_frequency)
         else if index = - 3 then (d\<lparr>msg := (msg d)[3 := 144]\<rparr>, Some parse_rated_rpm)
         else if index = - 4
           then (d\<lparr>rx_length := 5, msg := (msg d)[3 := 143]\<rparr>, Some parse_poles)
         else if index = - 5 then (d\<lparr>msg := (msg d)[3 := 14]\<rparr>, Some parse_accel)
         else if index = - 6 then (d\<lparr>msg := (msg d)[3 := 15]\<rparr>, Some parse_decel)
         else (d, None))"

text \<open>
  Modelled from the spec: the Transport that drives discovery is not part of the sources
  at hand. The spec says it runs one step per request and response round trip and feeds
  the response to the parser bound to the step. A run is a list of indices with the
  response to each; it ends in \<open>None\<close> where the spec leaves the Transport's policy
  open (an index without a parser, a response the parser cannot read or rejects).
\<close>

fun discovery :: "(int \<times> u8 list) list \<Rightarrow> BD600Spindle \<Rightarrow> ModbusCommand
    \<Rightarrow> (BD600Spindle \<times> ModbusCommand) option" where
  "discovery [] s data = Some (s, data)"
| "discovery ((index, response) # rest) s data =
     (case initialization_sequence index data of
        (d, None) \<Rightarrow> None
      | (d, Some parser) \<Rightarrow>
          (case parser response s of
             None \<Rightarrow> None
           | Some (ok, s') \<Rightarrow> if ok then discovery rest s' d else None))"

section \<open>Status polling\<close>

definition status_parser :: response_parser where
  "status_parser response s = Some (True, s)"

definition get_status_ok ::
  "BD600Spindle \<Rightarrow> ModbusCommand \<Rightarrow> BD600Spindle \<times> ModbusCommand \<times> response_parser" where
  "get_status_ok s data =
     (let d = data\<lparr>tx_length := 6, rx_length := 6,
                   msg := (msg data)[1 := 0x04, 2 := 0x03, 3 := ucast (reg s),
                                     4 := 0x00, 5 := 0x00]\<rparr>;
          s' = (if sint (reg s) < 0x03 then s\<lparr>reg := reg s + 1\<rparr> else s\<lparr>reg := 0x00\<rparr>)
      in (s', d, status_parser))"

section \<open>Helper facts\<close>

lemma six_bytes:
  assumes "6 \<le> length (xs :: 'a list)"
  obtains a b c d e f r where "xs = a # b # c # d # e # f # r"
proof -
  from assms obtain a r1 where 1: "xs = a # r1" "5 \<le> length r1"
    by (cases xs) auto
  then obtain b r2 where 2: "r1 = b # r2" "4 \<le> length r2"
    by (cases r1) auto
  then obtain c r3 where 3: "r2 = c # r3" "3 \<le> length r3"
    by (cases r2) auto
  then obtain d r4 where 4: "r3 = d # r4" "2 \<le> length r4"
    by (cases r3) auto
  then obtain e r5 where 5: "r4 = e # r5" "1 \<le> length r5"
    by (cases r4) auto
  then obtain f r where 6: "r5 = f # r"
    by (cases r5) auto
  from 1 2 3 4 5 6 that show thesis by blast
qed

text \<open>The two value bytes of a speed frame, read back as one number.\<close>

lemma and_255_nat: "(n::nat) AND 255 = n mod 256"
proof -
  have "(255::nat) = mask 8" by (simp add: mask_eq_exp_minus_1)
  then have "n AND 255 = take_bit 8 n" by (simp add: take_bit_eq_mask)
  then show ?thesis by (simp add: take_bit_eq_mod)
qed

lemma high_byte_unat:
  fixes w :: u32
  shows "unat (ucast (drop_bit 8 w) :: u8) = (unat w div 256) mod 256"
  by (simp add: unsigned_ucast_eq unat_drop_bit_eq take_bit_eq_mod drop_bit_eq_div unat_div)

lemma low_byte_unat:
  fixes w :: u32
  shows "unat (ucast (w AND 0xFF) :: u8) = unat w mod 256"
proof -
  have "unat (w AND 0xFF) = unat w AND 255"
    by (simp add: unsigned_and_eq)
  then show ?thesis
    by (simp add: unsigned_ucast_eq and_255_nat take_bit_eq_mod)
qed

lemma two_bytes_mod: "256 * ((n div 256) mod 256) + n mod 256 = (n::nat) mod 65536"
proof -
  have "n mod (256 * 256) = 256 * (n div 256 mod 256) + n mod 256"
    by (rule mod_mult2_eq)
  then show ?thesis by simp
qed

lemma two_bytes_unat:
  fixes w :: u32
  shows "256 * unat (ucast (drop_bit 8 w) :: u8) + unat (ucast (w AND 0xFF) :: u8)
    = unat w mod 65536"
  unfolding high_byte_unat low_byte_unat by (rule two_bytes_mod)

lemma unat_ucast_16_32: "unat (ucast (m :: u16) :: u32) = unat m"
proof -
  have "unat m < 2 ^ 16"
    using unsigned_less [of m] by simp
  then have "unat m < 2 ^ 32"
    by simp
  then show ?thesis
    by (simp add: unsigned_ucast_eq take_bit_nat_eq_self)
qed

lemma speed_percentage_unat:
  fixes a :: u32 and m :: u16
  shows "unat ((a div ucast m) * 100 * 100) mod 65536 = (unat a div unat m * 10000) mod 65536"
proof -
  have "unat ((a div ucast m) * 100 * 100) = (unat a div unat m * 10000) mod 2 ^ 32"
    by (simp add: unat_word_ariths unat_div unat_ucast_16_32 mod_simps mult.assoc)
  moreover have "(k mod 2 ^ 32) mod 65536 = k mod 65536" for k :: nat
    by (rule mod_mod_cancel) simp
  ultimately show ?thesis by simp
qed

lemma warn_cond:
  "(dev_speed < ucast (mn :: u16) \<or> dev_speed > ucast (mx :: u16)) =
   (unat (dev_speed :: u32) < unat mn \<or> unat mx < unat dev_speed)"
  by (simp add: word_less_nat_alt unat_ucast_16_32)

lemma updateRPM_fields:
  "maxFrequency (updateRPM s) = maxFrequency s"
  "minFrequency (updateRPM s) = min (minFrequency s) (maxFrequency s)"
  "numberPoles (updateRPM s) = numberPoles s"
  "NumberPhases (updateRPM s) = NumberPhases s"
  "maxRpmAt50Hz (updateRPM s) = maxRpmAt50Hz s"
  "reg (updateRPM s) = reg s"
  "logged (updateRPM s) = logged s"
  "slop (updateRPM s) = max (uint (maxFrequency s) div 40) 1"
  by (auto simp add: updateRPM_def Let_def min_def)

lemma updateRPM_speeds:
  "speeds (updateRPM s) =
     (if published (speeds s) = []
      then \<lparr>published =
              [(word_of_int (uint (min (minFrequency s) (maxFrequency s)) * 60 div 100),
                word_of_int (uint (maxFrequency s) * 60 div 100))],
            table_key = Some (ucast (maxFrequency s))\<rparr>
      else (speeds s)\<lparr>table_key := Some (ucast (maxFrequency s))\<rparr>)"
  by (auto simp add: updateRPM_def Let_def min_def speeds_size_def shelfSpeeds_def
      setupSpeeds_def)

lemma rpm_no_wrap:
  "uint (word_of_int (uint (f :: u16) * 60 div 100) :: u32) = uint f * 60 div 100"
proof -
  define k where "k = uint f * 60 div 100"
  have hi: "uint f < 65536"
    using unsigned_less [of f] by simp
  have lo: "0 \<le> uint f"
    by simp
  from lo have "0 \<le> k"
    unfolding k_def by (simp add: pos_imp_zdiv_nonneg_iff)
  moreover from lo hi have "k < 4294967296"
    unfolding k_def by arith
  ultimately have "0 \<le> k" "k < 2 ^ 32"
    by simp_all
  then have "uint (word_of_int k :: u32) = k"
    by (simp add: uint_word_of_int)
  then show ?thesis
    unfolding k_def .
qed

section \<open>Calibration: the frequency invariant, the slop and the frame of updateRPM\<close>

text \<open>
  C6. When a state has \<open>minFrequency > maxFrequency\<close>, the calibration \<open>updateRPM\<close>
  leaves it with \<open>minFrequency = maxFrequency\<close>; and whatever the state before, the
  state that a calibration returns has \<open>minFrequency \<le> maxFrequency\<close>.
\<close>

theorem updateRPM_repairs_min_le_max:
  "(maxFrequency s < minFrequency s \<longrightarrow>
      minFrequency (updateRPM s) = maxFrequency (updateRPM s))
   \<and> minFrequency (updateRPM s) \<le> maxFrequency (updateRPM s)"
  by (auto simp add: updateRPM_fields)

theorem updateRPM_repairs_min_le_max_witness:
  "maxFrequency ((new_spindle 0 3000 0)\<lparr>maxFrequency := 50\<rparr>)
     < minFrequency ((new_spindle 0 3000 0)\<lparr>maxFrequency := 50\<rparr>)
   \<and> minFrequency (updateRPM ((new_spindle 0 3000 0)\<lparr>maxFrequency := 50\<rparr>))
     = maxFrequency (updateRPM ((new_spindle 0 3000 0)\<lparr>maxFrequency := 50\<rparr>))
   \<and> minFrequency (updateRPM ((new_spindle 0 3000 0)\<lparr>maxFrequency := 50\<rparr>))
     \<le> maxFrequency (updateRPM ((new_spindle 0 3000 0)\<lparr>maxFrequency := 50\<rparr>))"
proof -
  have h: "maxFrequency ((new_spindle 0 3000 0)\<lparr>maxFrequency := 50\<rparr>)
     < minFrequency ((new_spindle 0 3000 0)\<lparr>maxFrequency := 50\<rparr>)"
    by (simp add: new_spindle_def)
  from h updateRPM_repairs_min_le_max [of "(new_spindle 0 3000 0)\<lparr>maxFrequency := 50\<rparr>"]
  show ?thesis by blast
qed

text \<open>
  C7. The slop that a calibration stores is \<open>max (maxFrequency div 40) 1\<close>, with the
  division on integers, and a larger \<open>maxFrequency\<close> never gives a smaller slop. This
  holds for every 16-bit \<open>maxFrequency\<close>, so in particular for those between 100 and
  4000 centiHz.
\<close>

theorem updateRPM_slop:
  "slop (updateRPM s) = max (uint (maxFrequency s) div 40) 1
   \<and> (maxFrequency s \<le> maxFrequency s' \<longrightarrow> slop (updateRPM s) \<le> slop (updateRPM s'))"
  by (auto simp add: updateRPM_fields word_le_def intro: zdiv_mono1 max.coboundedI1)

theorem updateRPM_slop_witness:
  "maxFrequency (new_spindle 0 3000 0) \<le> maxFrequency ((new_spindle 0 3000 0)\<lparr>maxFrequency := 4000\<rparr>)
   \<and> slop (updateRPM (new_spindle 0 3000 0)) = 10
   \<and> slop (updateRPM (new_spindle 0 3000 0))
       \<le> slop (updateRPM ((new_spindle 0 3000 0)\<lparr>maxFrequency := 4000\<rparr>))"
proof -
  have h: "maxFrequency (new_spindle 0 3000 0)
      \<le> maxFrequency ((new_spindle 0 3000 0)\<lparr>maxFrequency := 4000\<rparr>)"
    by (simp add: new_spindle_def)
  have v: "max (uint (maxFrequency (new_spindle 0 3000 0)) div 40) 1 = 10"
    by (simp add: new_spindle_def)
  from h v updateRPM_slop [of "new_spindle 0 3000 0"
      "(new_spindle 0 3000 0)\<lparr>maxFrequency := 4000\<rparr>"]
  show ?thesis by simp
qed

text \<open>
  C10. A calibration never changes \<open>maxFrequency\<close>: the repair of the invariant lowers
  \<open>minFrequency\<close> to \<open>maxFrequency\<close> and does nothing when \<open>minFrequency \<le> maxFrequency\<close>
  already. Apart from \<open>minFrequency\<close>, only \<open>slop\<close> and the speed table change:
  \<open>numberPoles\<close>, \<open>maxRpmAt50Hz\<close> and every other field keep their values.
\<close>

theorem updateRPM_frame:
  "maxFrequency (updateRPM s) = maxFrequency s
   \<and> minFrequency (updateRPM s) = min (minFrequency s) (maxFrequency s)
   \<and> numberPoles (updateRPM s) = numberPoles s
   \<and> maxRpmAt50Hz (updateRPM s) = maxRpmAt50Hz s
   \<and> updateRPM s = s\<lparr>minFrequency := min (minFrequency s) (maxFrequency s),
                       slop := slop (updateRPM s), speeds := speeds (updateRPM s)\<rparr>"
  by (auto simp add: updateRPM_def Let_def min_def)

theorem updateRPM_frame_witness:
  "updateRPM ((new_spindle 2 3000 7)\<lparr>maxFrequency := 50\<rparr>) =
     \<lparr>reg = 2, minFrequency = 50, maxFrequency = 50, numberPoles = 4, NumberPhases = 3,
      maxRpmAt50Hz = 3000, slop = 1,
      speeds = \<lparr>published = [(30, 30)], table_key = Some 50\<rparr>, logged = []\<rparr>"
  using updateRPM_frame [of "(new_spindle 2 3000 7)\<lparr>maxFrequency := 50\<rparr>"]
  by (simp add: new_spindle_def updateRPM_fields updateRPM_speeds)

section \<open>The speed command\<close>

text \<open>
  C1, as the source has it. For every target \<open>dev_speed\<close> and every non-zero
  \<open>maxFrequency\<close>, \<open>set_speed_command\<close> returns a write frame for register 0x3000:
  lengths 6 and 6, the address byte untouched, then the bytes 06 30 00 and the two value
  bytes. The value they carry is the low 16 bits of
  \<open>(dev_speed div maxFrequency) * 10000\<close>, the division being the integer division and
  coming before the multiplication; it is \<open>(dev_speed div maxFrequency) * 10000\<close> itself
  as long as the quotient is at most 6. A non-zero target outside
  \<open>[minFrequency, maxFrequency]\<close> adds one warning to the log and changes nothing else:
  the frame is the same function of \<open>dev_speed\<close> and \<open>maxFrequency\<close> in both cases.
\<close>

theorem set_speed_command_frame:
  assumes "maxFrequency s \<noteq> 0" and "6 \<le> length (msg data)"
  shows "\<exists>d'. set_speed_command dev_speed s data =
           Some (s\<lparr>logged := logged s @
                   (if dev_speed \<noteq> 0 \<and> (unat dev_speed < unat (minFrequency s)
                                       \<or> unat (maxFrequency s) < unat dev_speed)
                    then [WarnFreqOutside dev_speed (minFrequency s) (maxFrequency s)]
                    else [])\<rparr>, d')
         \<and> tx_length d' = 6 \<and> rx_length d' = 6
         \<and> msg d' ! 0 = msg data ! 0
         \<and> payload d' = [0x06, 0x30, 0x00, msg d' ! 4, msg d' ! 5]
         \<and> frame_value d' = (unat dev_speed div unat (maxFrequency s) * 10000) mod 65536
         \<and> (unat dev_speed div unat (maxFrequency s) \<le> 6 \<longrightarrow>
              frame_value d' = unat dev_speed div unat (maxFrequency s) * 10000)"
proof -
  from assms(2) obtain a b c d e f r where xs: "msg data = a # b # c # d # e # f # r"
    by (rule six_bytes)
  define sp :: u32 where "sp = (dev_speed div ucast (maxFrequency s)) * 100 * 100"
  define d' where "d' = data\<lparr>tx_length := 6, rx_length := 6,
      msg := a # 0x06 # 0x30 # 0x00 # ucast (drop_bit 8 sp) # ucast (sp AND 0xFF) # r\<rparr>"
  have upd: "(msg data)[1 := 0x06, 2 := 0x30, 3 := 0x00, 4 := ucast (drop_bit 8 sp),
      5 := ucast (sp AND 0xFF)]
      = a # 0x06 # 0x30 # 0x00 # ucast (drop_bit 8 sp) # ucast (sp AND 0xFF) # r"
    by (simp add: xs)
  have run: "set_speed_command dev_speed s data =
           Some (s\<lparr>logged := logged s @
                   (if dev_speed \<noteq> 0 \<and> (unat dev_speed < unat (minFrequency s)
                                       \<or> unat (maxFrequency s) < unat dev_speed)
                    then [WarnFreqOutside dev_speed (minFrequency s) (maxFrequency s)]
                    else [])\<rparr>, d')"
    using assms(1) upd
    by (simp add: set_speed_command_def Let_def warn_cond d'_def sp_def)
  have len: "tx_length d' = 6" "rx_length d' = 6"
    by (simp_all add: d'_def)
  have addr: "msg d' ! 0 = msg data ! 0"
    by (simp add: d'_def xs)
  have pay: "payload d' = [0x06, 0x30, 0x00, msg d' ! 4, msg d' ! 5]"
    by (simp add: payload_def d'_def)
  have "frame_value d' = unat sp mod 65536"
    by (simp add: frame_value_def d'_def two_bytes_unat)
  also have "\<dots> = (unat dev_speed div unat (maxFrequency s) * 10000) mod 65536"
    unfolding sp_def by (rule speed_percentage_unat)
  finally have val:
    "frame_value d' = (unat dev_speed div unat (maxFrequency s) * 10000) mod 65536" .
  have small: "frame_value d' = unat dev_speed div unat (maxFrequency s) * 10000"
    if "unat dev_speed div unat (maxFrequency s) \<le> 6"
  proof -
    from that have "unat dev_speed div unat (maxFrequency s) * 10000 < 65536"
      by simp
    with val show ?thesis by simp
  qed
  from run len addr pay val small show ?thesis by blast
qed

theorem set_speed_command_frame_witness:
  "maxFrequency (new_spindle 0 3000 10) \<noteq> 0
   \<and> 6 \<le> length (msg \<lparr>tx_length = 0, rx_length = 0, msg = [1, 0, 0, 0, 0, 0]\<rparr>)
   \<and> set_speed_command 400 (new_spindle 0 3000 10)
        \<lparr>tx_length = 0, rx_length = 0, msg = [1, 0, 0, 0, 0, 0]\<rparr>
      = Some (new_spindle 0 3000 10,
          \<lparr>tx_length = 6, rx_length = 6, msg = [1, 0x06, 0x30, 0x00, 0x27, 0x10]\<rparr>)
   \<and> frame_value \<lparr>tx_length = 6, rx_length = 6, msg = [1, 0x06, 0x30, 0x00, 0x27, 0x10]\<rparr>
      = 10000"
proof -
  have h1: "maxFrequency (new_spindle 0 3000 10) \<noteq> 0"
    by (simp add: new_spindle_def)
  have h2: "6 \<le> length (msg \<lparr>tx_length = 0, rx_length = 0, msg = [1, 0, 0, 0, 0, 0]\<rparr>)"
    by simp
  have run: "set_speed_command 400 (new_spindle 0 3000 10)
        \<lparr>tx_length = 0, rx_length = 0, msg = [1, 0, 0, 0, 0, 0]\<rparr>
      = Some (new_spindle 0 3000 10,
          \<lparr>tx_length = 6, rx_length = 6, msg = [1, 0x06, 0x30, 0x00, 0x27, 0x10]\<rparr>)"
    by (simp add: set_speed_command_def new_spindle_def Let_def)
  from set_speed_command_frame [OF h1 h2, of 400] run
  have "frame_value \<lparr>tx_length = 6, rx_length = 6, msg = [1, 0x06, 0x30, 0x00, 0x27, 0x10]\<rparr>
      = (unat (400 :: u32) div unat (maxFrequency (new_spindle 0 3000 10)) * 10000) mod 65536"
    by auto
  then have "frame_value \<lparr>tx_length = 6, rx_length = 6, msg = [1, 0x06, 0x30, 0x00, 0x27, 0x10]\<rparr>
      = 10000"
    by (simp add: new_spindle_def)
  with h1 h2 run show ?thesis by blast
qed

text \<open>
  C1 as the spec words it, with the value equal to \<open>(dev_speed div maxFrequency) * 10000\<close>
  for every target, fails once the quotient reaches 7: with the default
  \<open>maxFrequency = 400\<close> and the target 2800 the product is 70000, which two bytes cannot
  hold, and the frame carries 70000 - 65536 = 4464 (bytes 11 70).
\<close>

theorem set_speed_command_overflow_counterexample:
  "set_speed_command 2800 (new_spindle 0 3000 10)
        \<lparr>tx_length = 0, rx_length = 0, msg = [1, 0, 0, 0, 0, 0]\<rparr>
      = Some ((new_spindle 0 3000 10)\<lparr>logged := [WarnFreqOutside 2800 100 400]\<rparr>,
          \<lparr>tx_length = 6, rx_length = 6, msg = [1, 0x06, 0x30, 0x00, 0x11, 0x70]\<rparr>)
   \<and> frame_value \<lparr>tx_length = 6, rx_length = 6, msg = [1, 0x06, 0x30, 0x00, 0x11, 0x70]\<rparr>
      = 4464
   \<and> frame_value \<lparr>tx_length = 6, rx_length = 6, msg = [1, 0x06, 0x30, 0x00, 0x11, 0x70]\<rparr>
      \<noteq> unat (2800 :: u32) div unat (maxFrequency (new_spindle 0 3000 10)) * 10000"
  by (simp add: set_speed_command_def new_spindle_def Let_def frame_value_def)

text \<open>
  C2. With \<open>maxFrequency = 40000\<close> and the target 20000 the source divides first:
  20000 div 40000 is 0, so both value bytes of the frame are 0 and not the 5000 of the
  spec's example.
\<close>

theorem set_speed_command_half_speed:
  "set_speed_command 20000 ((new_spindle 0 3000 10)\<lparr>maxFrequency := 40000\<rparr>)
        \<lparr>tx_length = 0, rx_length = 0, msg = [1, 0, 0, 0, 0, 0]\<rparr>
      = Some ((new_spindle 0 3000 10)\<lparr>maxFrequency := 40000\<rparr>,
          \<lparr>tx_length = 6, rx_length = 6, msg = [1, 0x06, 0x30, 0x00, 0x00, 0x00]\<rparr>)
   \<and> frame_value \<lparr>tx_length = 6, rx_length = 6, msg = [1, 0x06, 0x30, 0x00, 0x00, 0x00]\<rparr>
      = 0"
  by (simp add: set_speed_command_def new_spindle_def Let_def frame_value_def)

section \<open>Publication of the RPM bounds\<close>

text \<open>
  C8. A calibration that finds the speed table empty publishes one pair of bounds,
  \<open>minRPM = minFrequency * 60 div 100\<close> and \<open>maxRPM = maxFrequency * 60 div 100\<close>, the
  frequencies being those of the state it returns (the minimum after the repair of the
  invariant), and neither product wraps. A calibration that finds the table non-empty
  leaves the published bounds as they are. The table is non-empty after every
  calibration, so whatever happens to the other fields in between, the next calibration
  publishes nothing: the bounds are published once. Every calibration sets the key of
  the table to the current \<open>maxFrequency\<close> and recomputes the slop.
\<close>

theorem updateRPM_publishes_once:
  "(speeds_size (speeds s) = 0 \<longrightarrow>
      (\<exists>minRPM maxRPM. published (speeds (updateRPM s)) = [(minRPM, maxRPM)]
         \<and> uint minRPM = uint (minFrequency (updateRPM s)) * 60 div 100
         \<and> uint maxRPM = uint (maxFrequency (updateRPM s)) * 60 div 100))
   \<and> (speeds_size (speeds s) \<noteq> 0 \<longrightarrow>
        published (speeds (updateRPM s)) = published (speeds s))
   \<and> speeds_size (speeds (updateRPM s)) \<noteq> 0
   \<and> (\<forall>t. speeds t = speeds (updateRPM s) \<longrightarrow>
        published (speeds (updateRPM t)) = published (speeds (updateRPM s)))
   \<and> table_key (speeds (updateRPM s)) = Some (ucast (maxFrequency s))
   \<and> slop (updateRPM s) = max (uint (maxFrequency s) div 40) 1"
proof -
  have first: "\<exists>minRPM maxRPM. published (speeds (updateRPM s)) = [(minRPM, maxRPM)]
         \<and> uint minRPM = uint (minFrequency (updateRPM s)) * 60 div 100
         \<and> uint maxRPM = uint (maxFrequency (updateRPM s)) * 60 div 100"
    if "speeds_size (speeds s) = 0"
  proof -
    from that have "published (speeds (updateRPM s)) =
        [(word_of_int (uint (minFrequency (updateRPM s)) * 60 div 100),
          word_of_int (uint (maxFrequency (updateRPM s)) * 60 div 100))]"
      by (simp add: updateRPM_speeds updateRPM_fields speeds_size_def)
    with rpm_no_wrap [of "minFrequency (updateRPM s)"]
      rpm_no_wrap [of "maxFrequency (updateRPM s)"]
    show ?thesis by blast
  qed
  have later: "published (speeds (updateRPM s)) = published (speeds s)"
    if "speeds_size (speeds s) \<noteq> 0"
    using that by (simp add: updateRPM_speeds speeds_size_def)
  have nonempty: "speeds_size (speeds (updateRPM s)) \<noteq> 0"
    by (simp add: updateRPM_speeds speeds_size_def)
  have again: "published (speeds (updateRPM t)) = published (speeds (updateRPM s))"
    if "speeds t = speeds (updateRPM s)" for t
    using that nonempty by (simp add: updateRPM_speeds [of t] speeds_size_def)
  have key: "table_key (speeds (updateRPM s)) = Some (ucast (maxFrequency s))"
    by (simp add: updateRPM_speeds)
  have sl: "slop (updateRPM s) = max (uint (maxFrequency s) div 40) 1"
    by (rule updateRPM_fields)
  from first later nonempty again key sl show ?thesis by blast
qed

theorem updateRPM_publishes_once_witness:
  "speeds_size (speeds (new_spindle 0 3000 10)) = 0
   \<and> published (speeds (updateRPM (new_spindle 0 3000 10))) = [(60, 240)]
   \<and> speeds ((updateRPM (new_spindle 0 3000 10))\<lparr>minFrequency := 12000, maxFrequency := 40000\<rparr>)
       = speeds (updateRPM (new_spindle 0 3000 10))
   \<and> published (speeds (updateRPM
        ((updateRPM (new_spindle 0 3000 10))\<lparr>minFrequency := 12000, maxFrequency := 40000\<rparr>)))
       = [(60, 240)]"
proof -
  have h: "speeds_size (speeds (new_spindle 0 3000 10)) = 0"
    by (simp add: new_spindle_def speeds_size_def)
  have v: "published (speeds (updateRPM (new_spindle 0 3000 10))) = [(60, 240)]"
    by (simp add: updateRPM_speeds new_spindle_def)
  have k: "speeds ((updateRPM (new_spindle 0 3000 10))\<lparr>minFrequency := 12000, maxFrequency := 40000\<rparr>)
       = speeds (updateRPM (new_spindle 0 3000 10))"
    by simp
  from updateRPM_publishes_once [of "new_spindle 0 3000 10"] k
  have "published (speeds (updateRPM
        ((updateRPM (new_spindle 0 3000 10))\<lparr>minFrequency := 12000, maxFrequency := 40000\<rparr>)))
       = published (speeds (updateRPM (new_spindle 0 3000 10)))"
    by blast
  with h v k show ?thesis by simp
qed

section \<open>The end of the discovery sequence\<close>




section \<open>The pole count\<close>

text \<open>
  C3. Step -4 asks for register 143 with an expected response length of 5 and binds the
  pole-count parser. On a response that has its byte at offset 4, the parser succeeds
  exactly when that byte is 2, 3 or 4, and then \<open>numberPoles\<close> is that value; for every
  other byte (0, 1, 5, ..., 255) it fails, and the driver is as before except for the
  error line in the log, so \<open>numberPoles\<close> keeps its value.
\<close>

theorem parse_poles_range:
  assumes "5 \<le> length response"
  shows "initialization_sequence (- 4) data =
           (data\<lparr>tx_length := 6, rx_length := 5,
                  msg := (msg data)[1 := 0x01, 2 := 0x03, 4 := 0x00, 5 := 0x00, 3 := 143]\<rparr>,
            Some parse_poles)
     \<and> (2 \<le> unat (response ! 4) \<and> unat (response ! 4) \<le> 4 \<longrightarrow>
          (\<exists>s'. parse_poles response s = Some (True, s')
             \<and> numberPoles s' = ucast (response ! 4)
             \<and> unat (numberPoles s') = unat (response ! 4)))
     \<and> (\<not> (2 \<le> unat (response ! 4) \<and> unat (response ! 4) \<le> 4) \<longrightarrow>
          (\<exists>s'. parse_poles response s = Some (False, s')
             \<and> numberPoles s' = numberPoles s
             \<and> s' = s\<lparr>logged := logged s @ [ErrorPoles (response ! 4)]\<rparr>))"
proof -
  have step: "initialization_sequence (- 4) data =
           (data\<lparr>tx_length := 6, rx_length := 5,
                  msg := (msg data)[1 := 0x01, 2 := 0x03, 4 := 0x00, 5 := 0x00, 3 := 143]\<rparr>,
            Some parse_poles)"
    by (simp add: initialization_sequence_def Let_def)
  define v where "v = response ! 4"
  have rng: "(v \<le> 4 \<and> v \<ge> 2) = (2 \<le> unat v \<and> unat v \<le> 4)"
    by (auto simp add: word_le_nat_alt)
  have up: "unat (ucast v :: u16) = unat v"
  proof -
    have "unat v < 2 ^ 8" using unsigned_less [of v] by simp
    then have "unat v < 2 ^ 16" by simp
    then show ?thesis by (simp add: unsigned_ucast_eq take_bit_nat_eq_self)
  qed
  have accept: "\<exists>s'. parse_poles response s = Some (True, s')
             \<and> numberPoles s' = ucast v \<and> unat (numberPoles s') = unat v"
    if "2 \<le> unat v \<and> unat v \<le> 4"
  proof -
    from that assms rng have "parse_poles response s =
        Some (True, updateRPM (s\<lparr>numberPoles := ucast v,
                                  logged := logged s @ [InfoPoles (ucast v)]\<rparr>))"
      by (simp add: parse_poles_def Let_def v_def)
    moreover have "numberPoles (updateRPM (s\<lparr>numberPoles := ucast v,
                                  logged := logged s @ [InfoPoles (ucast v)]\<rparr>)) = ucast v"
      by (simp add: updateRPM_fields)
    ultimately show ?thesis using up by simp
  qed
  have reject: "\<exists>s'. parse_poles response s = Some (False, s')
             \<and> numberPoles s' = numberPoles s
             \<and> s' = s\<lparr>logged := logged s @ [ErrorPoles v]\<rparr>"
    if "\<not> (2 \<le> unat v \<and> unat v \<le> 4)"
  proof -
    from that assms rng have "parse_poles response s =
        Some (False, s\<lparr>logged := logged s @ [ErrorPoles v]\<rparr>)"
      by (simp add: parse_poles_def Let_def v_def)
    then show ?thesis by simp
  qed
  from step accept reject show ?thesis
    unfolding v_def by blast
qed

theorem parse_poles_range_witness:
  "5 \<le> length [1, 0x01, 0x03, 143, 2 :: u8]
   \<and> map_option fst (parse_poles [1, 0x01, 0x03, 143, 2] (new_spindle 0 3000 10)) = Some True
   \<and> map_option (numberPoles \<circ> snd) (parse_poles [1, 0x01, 0x03, 143, 2] (new_spindle 0 3000 10))
       = Some 2
   \<and> 5 \<le> length [1, 0x01, 0x03, 143, 255 :: u8]
   \<and> map_option fst (parse_poles [1, 0x01, 0x03, 143, 255] (new_spindle 0 3000 10)) = Some False
   \<and> map_option (numberPoles \<circ> snd) (parse_poles [1, 0x01, 0x03, 143, 255] (new_spindle 0 3000 10))
       = Some 4"
proof -
  have h2: "5 \<le> length [1, 0x01, 0x03, 143, 2 :: u8]" by simp
  have h255: "5 \<le> length [1, 0x01, 0x03, 143, 255 :: u8]" by simp
  have r2: "2 \<le> unat ([1, 0x01, 0x03, 143, 2 :: u8] ! 4) \<and> unat ([1, 0x01, 0x03, 143, 2 :: u8] ! 4) \<le> 4"
    by simp
  have r255: "\<not> (2 \<le> unat ([1, 0x01, 0x03, 143, 255 :: u8] ! 4)
      \<and> unat ([1, 0x01, 0x03, 143, 255 :: u8] ! 4) \<le> 4)"
    by simp
  from r2 parse_poles_range [OF h2, where s = "new_spindle 0 3000 10"]
  obtain s' where "parse_poles [1, 0x01, 0x03, 143, 2] (new_spindle 0 3000 10) = Some (True, s')"
    and "numberPoles s' = ucast ([1, 0x01, 0x03, 143, 2 :: u8] ! 4)"
    by blast
  then have a: "map_option fst (parse_poles [1, 0x01, 0x03, 143, 2] (new_spindle 0 3000 10)) = Some True
   \<and> map_option (numberPoles \<circ> snd) (parse_poles [1, 0x01, 0x03, 143, 2] (new_spindle 0 3000 10))
       = Some 2"
    by simp
  from r255 parse_poles_range [OF h255, where s = "new_spindle 0 3000 10"]
  obtain t' where "parse_poles [1, 0x01, 0x03, 143, 255] (new_spindle 0 3000 10) = Some (False, t')"
    and "numberPoles t' = numberPoles (new_spindle 0 3000 10)"
    by blast
  then have b: "map_option fst (parse_poles [1, 0x01, 0x03, 143, 255] (new_spindle 0 3000 10)) = Some False
   \<and> map_option (numberPoles \<circ> snd) (parse_poles [1, 0x01, 0x03, 143, 255] (new_spindle 0 3000 10))
       = Some 4"
    by (simp add: new_spindle_def)
  from h2 h255 a b show ?thesis by blast
qed

section \<open>Discovery from the defaults\<close>

text \<open>
  C5. From a driver whose speed table is empty, whatever its frequencies and pole count
  (the defaults 100, 400 and 4 of a new driver in particular), the steps -1, -2, -3 and
  -4 with responses carrying 40000, 12000, 3000 and 2 all succeed and leave exactly one
  publication of bounds: \<open>minRPM = 7200\<close> and \<open>maxRPM = 24000\<close>.
\<close>

theorem discovery_publishes_bounds:
  assumes "speeds_size (speeds s) = 0"
    and "6 \<le> length r1" and "response_value r1 = 40000"
    and "6 \<le> length r2" and "response_value r2 = 12000"
    and "6 \<le> length r3" and "response_value r3 = 3000"
    and "5 \<le> length r4" and "r4 ! 4 = 2"
  shows "\<exists>s' d'. discovery [(- 1, r1), (- 2, r2), (- 3, r3), (- 4, r4)] s data = Some (s', d')
     \<and> published (speeds s') = [(7200, 24000)]
     \<and> maxFrequency s' = 40000 \<and> minFrequency s' = 12000
     \<and> maxRpmAt50Hz s' = 3000 \<and> numberPoles s' = 2"
proof -
  define s1 where "s1 = s\<lparr>maxFrequency := 40000\<rparr>"
  define s2 where "s2 = s1\<lparr>minFrequency := 12000,
      logged := logged s1 @ [InfoFreqRange 120 400 7200 24000]\<rparr>"
  define s3 where "s3 = updateRPM (s2\<lparr>maxRpmAt50Hz := 3000,
      logged := logged s2 @ [InfoRatedRpm 3000]\<rparr>)"
  define s4 where "s4 = updateRPM (s3\<lparr>numberPoles := 2,
      logged := logged s3 @ [InfoPoles 2]\<rparr>)"
  have p1: "parse_max_frequency r1 s = Some (True, s1)"
    using assms(2,3) by (simp add: parse_max_frequency_def s1_def)
  have p2: "parse_min_frequency r2 s1 = Some (True, s2)"
    using assms(4,5) by (simp add: parse_min_frequency_def s1_def s2_def Let_def)
  have p3: "parse_rated_rpm r3 s2 = Some (True, s3)"
    using assms(6,7) by (simp add: parse_rated_rpm_def s3_def Let_def)
  have p4: "parse_poles r4 s3 = Some (True, s4)"
    using assms(8,9) by (simp add: parse_poles_def s4_def Let_def)
  have e2: "published (speeds s2) = []"
    using assms(1) by (simp add: s2_def s1_def speeds_size_def)
  have f2: "minFrequency s2 = 12000" "maxFrequency s2 = 40000"
    by (simp_all add: s2_def s1_def)
  have pub3: "published (speeds s3) = [(7200, 24000)]"
    using e2 f2 by (simp add: s3_def updateRPM_speeds)
  have f3: "minFrequency s3 = 12000" "maxFrequency s3 = 40000" "maxRpmAt50Hz s3 = 3000"
    using f2 by (simp_all add: s3_def updateRPM_fields)
  have pub4: "published (speeds s4) = [(7200, 24000)]"
    using pub3 by (simp add: s4_def updateRPM_speeds)
  have f4: "minFrequency s4 = 12000" "maxFrequency s4 = 40000" "maxRpmAt50Hz s4 = 3000"
      "numberPoles s4 = 2"
    using f3 by (simp_all add: s4_def updateRPM_fields)
  have "\<exists>d'. discovery [(- 1, r1), (- 2, r2), (- 3, r3), (- 4, r4)] s data = Some (s4, d')"
    using p1 p2 p3 p4 by (simp add: initialization_sequence_def Let_def)
  with pub4 f4 show ?thesis by blast
qed

theorem discovery_publishes_bounds_witness:
  "speeds_size (speeds (new_spindle 0 0 0)) = 0
   \<and> minFrequency (new_spindle 0 0 0) = 100 \<and> maxFrequency (new_spindle 0 0 0) = 400
   \<and> numberPoles (new_spindle 0 0 0) = 4
   \<and> response_value [1, 0x01, 0x03, 5, 0x9C, 0x40] = 40000
   \<and> response_value [1, 0x01, 0x03, 11, 0x2E, 0xE0] = 12000
   \<and> response_value [1, 0x01, 0x03, 144, 0x0B, 0xB8] = 3000
   \<and> map_option (published \<circ> speeds \<circ> fst)
        (discovery [(- 1, [1, 0x01, 0x03, 5, 0x9C, 0x40]), (- 2, [1, 0x01, 0x03, 11, 0x2E, 0xE0]),
                    (- 3, [1, 0x01, 0x03, 144, 0x0B, 0xB8]), (- 4, [1, 0x01, 0x03, 143, 0x02])]
           (new_spindle 0 0 0) \<lparr>tx_length = 0, rx_length = 0, msg = [1, 0, 0, 0, 0, 0]\<rparr>)
       = Some [(7200, 24000)]"
proof -
  have h0: "speeds_size (speeds (new_spindle 0 0 0)) = 0"
    by (simp add: new_spindle_def speeds_size_def)
  have d: "minFrequency (new_spindle 0 0 0) = 100 \<and> maxFrequency (new_spindle 0 0 0) = 400
     \<and> numberPoles (new_spindle 0 0 0) = 4"
    by (simp add: new_spindle_def)
  have v1: "response_value [1, 0x01, 0x03, 5, 0x9C, 0x40] = 40000"
    by (simp add: response_value_def)
  have v2: "response_value [1, 0x01, 0x03, 11, 0x2E, 0xE0] = 12000"
    by (simp add: response_value_def)
  have v3: "response_value [1, 0x01, 0x03, 144, 0x0B, 0xB8] = 3000"
    by (simp add: response_value_def)
  have l1: "6 \<le> length [1, 0x01, 0x03, 5, 0x9C, 0x40 :: u8]" by simp
  have l2: "6 \<le> length [1, 0x01, 0x03, 11, 0x2E, 0xE0 :: u8]" by simp
  have l3: "6 \<le> length [1, 0x01, 0x03, 144, 0x0B, 0xB8 :: u8]" by simp
  have l4: "5 \<le> length [1, 0x01, 0x03, 143, 0x02 :: u8]" by simp
  have v4: "[1, 0x01, 0x03, 143, 0x02 :: u8] ! 4 = 2" by simp
  from discovery_publishes_bounds [OF h0 l1 v1 l2 v2 l3 v3 l4 v4,
      where data = "\<lparr>tx_length = 0, rx_length = 0, msg = [1, 0, 0, 0, 0, 0]\<rparr>"]
  obtain s' d' where "discovery
      [(- 1, [1, 0x01, 0x03, 5, 0x9C, 0x40]), (- 2, [1, 0x01, 0x03, 11, 0x2E, 0xE0]),
       (- 3, [1, 0x01, 0x03, 144, 0x0B, 0xB8]), (- 4, [1, 0x01, 0x03, 143, 0x02])]
      (new_spindle 0 0 0) \<lparr>tx_length = 0, rx_length = 0, msg = [1, 0, 0, 0, 0, 0]\<rparr> = Some (s', d')"
    and "published (speeds s') = [(7200, 24000)]"
    by blast
  then have "map_option (published \<circ> speeds \<circ> fst)
        (discovery [(- 1, [1, 0x01, 0x03, 5, 0x9C, 0x40]), (- 2, [1, 0x01, 0x03, 11, 0x2E, 0xE0]),
                    (- 3, [1, 0x01, 0x03, 144, 0x0B, 0xB8]), (- 4, [1, 0x01, 0x03, 143, 0x02])]
           (new_spindle 0 0 0) \<lparr>tx_length = 0, rx_length = 0, msg = [1, 0, 0, 0, 0, 0]\<rparr>)
       = Some [(7200, 24000)]"
    by (simp only: option.map_sel option.simps comp_apply fst_conv)
  with h0 d v1 v2 v3 show ?thesis by blast
qed

section \<open>The status cursor\<close>

text \<open>
  On the four cursor values of the cycle the source does what is asked of it: for
  \<open>reg\<close> among 0, 1, 2, 3, \<open>get_status_ok\<close> writes the read frame 04 03 \<open>reg\<close> 00 00
  with lengths 6 and 6, changes nothing in the driver but the cursor, which becomes
  \<open>(reg + 1) mod 4\<close> and so stays among 0, 1, 2, 3, and returns a parser that accepts
  every response and leaves the driver alone.
\<close>

theorem get_status_ok_cycle:
  assumes "reg s \<in> {0, 1, 2, 3}" and "6 \<le> length (msg data)"
  shows "\<exists>s' d parser. get_status_ok s data = (s', d, parser)
     \<and> tx_length d = 6 \<and> rx_length d = 6 \<and> msg d ! 0 = msg data ! 0
     \<and> map unat (payload d) = [0x04, 0x03, unat (reg s), 0x00, 0x00]
     \<and> s' = s\<lparr>reg := reg s'\<rparr>
     \<and> unat (reg s') = (unat (reg s) + 1) mod 4
     \<and> reg s' \<in> {0, 1, 2, 3}
     \<and> (\<forall>response t. parser response t = Some (True, t))"
proof -
  from assms(2) obtain a b c d e f r where xs: "msg data = a # b # c # d # e # f # r"
    by (rule six_bytes)
  from assms(1) consider "reg s = 0" | "reg s = 1" | "reg s = 2" | "reg s = 3"
    by auto
  then show ?thesis
    by cases (simp_all add: get_status_ok_def Let_def xs payload_def status_parser_def)
qed

theorem get_status_ok_cycle_witness:
  "reg (new_spindle 3 3000 10) \<in> {0, 1, 2, 3}
   \<and> 6 \<le> length (msg \<lparr>tx_length = 0, rx_length = 0, msg = [1, 0, 0, 0, 0, 0]\<rparr>)
   \<and> fst (get_status_ok (new_spindle 3 3000 10)
            \<lparr>tx_length = 0, rx_length = 0, msg = [1, 0, 0, 0, 0, 0]\<rparr>)
       = new_spindle 0 3000 10
   \<and> fst (snd (get_status_ok (new_spindle 3 3000 10)
            \<lparr>tx_length = 0, rx_length = 0, msg = [1, 0, 0, 0, 0, 0]\<rparr>))
       = \<lparr>tx_length = 6, rx_length = 6, msg = [1, 0x04, 0x03, 0x03, 0x00, 0x00]\<rparr>
   \<and> unat (reg (fst (get_status_ok (new_spindle 3 3000 10)
            \<lparr>tx_length = 0, rx_length = 0, msg = [1, 0, 0, 0, 0, 0]\<rparr>))) = (3 + 1) mod 4"
proof -
  have h1: "reg (new_spindle 3 3000 10) \<in> {0, 1, 2, 3}"
    by (simp add: new_spindle_def)
  have h2: "6 \<le> length (msg \<lparr>tx_length = 0, rx_length = 0, msg = [1, 0, 0, 0, 0, 0]\<rparr>)"
    by simp
  have r: "unat (reg (new_spindle 3 3000 10)) = 3"
    by (simp add: new_spindle_def)
  from get_status_ok_cycle [OF h1 h2] r
  have c: "unat (reg (fst (get_status_ok (new_spindle 3 3000 10)
            \<lparr>tx_length = 0, rx_length = 0, msg = [1, 0, 0, 0, 0, 0]\<rparr>))) = (3 + 1) mod 4"
    by auto
  have a: "fst (get_status_ok (new_spindle 3 3000 10)
            \<lparr>tx_length = 0, rx_length = 0, msg = [1, 0, 0, 0, 0, 0]\<rparr>)
       = new_spindle 0 3000 10"
    by (simp add: get_status_ok_def new_spindle_def Let_def)
  have b: "fst (snd (get_status_ok (new_spindle 3 3000 10)
            \<lparr>tx_length = 0, rx_length = 0, msg = [1, 0, 0, 0, 0, 0]\<rparr>))
       = \<lparr>tx_length = 6, rx_length = 6, msg = [1, 0x04, 0x03, 0x03, 0x00, 0x00]\<rparr>"
    by (simp add: get_status_ok_def new_spindle_def Let_def)
  from h1 h2 a b c show ?thesis by blast
qed

text \<open>
  C9. Nothing puts the cursor on the cycle to begin with: the header declares
  \<^verbatim>\<open>int reg;\<close> without the initial value that every other member has, and the
  constructor does not assign it. From a cursor outside 0, ..., 3, here -2,
  \<open>get_status_ok\<close> asks for register 0xFE with the frame 04 03 FE 00 00 and moves the
  cursor to -1, so the registers polled are not 0, 1, 2, 3 one per call.
\<close>

theorem get_status_ok_uninitialised_cursor:
  "fst (get_status_ok (new_spindle (- 2) 3000 10)
          \<lparr>tx_length = 0, rx_length = 0, msg = [1, 0, 0, 0, 0, 0]\<rparr>)
     = new_spindle (- 1) 3000 10
   \<and> fst (snd (get_status_ok (new_spindle (- 2) 3000 10)
          \<lparr>tx_length = 0, rx_length = 0, msg = [1, 0, 0, 0, 0, 0]\<rparr>))
     = \<lparr>tx_length = 6, rx_length = 6, msg = [1, 0x04, 0x03, 0xFE, 0x00, 0x00]\<rparr>
   \<and> sint (reg (new_spindle (- 2) 3000 10)) = - 2"
  by (simp add: get_status_ok_def new_spindle_def Let_def)

end
